theory Spec2Isabelle
  imports Complex_Main "HOL-Library.Multiset" "HOL-Library.Log_Nat" "HOL-Library.Sublist"
begin

section \<open>The book dashboard: a shallow embedding of book\_dashboard.py\<close>

text \<open>
  The script keeps one SQLite table \<open>books(id, title, cost, price)\<close>, reads it into a
  pandas DataFrame and derives totals, a filtered view, a pie chart and a CSV export.

  Conventions of the model.
  \<^item> A Python \<open>str\<close> is a \<open>string\<close>; each \<open>char\<close> stands for one code point below 256.
  \<^item> The amounts \<open>cost\<close> and \<open>price\<close> have a type parameter \<open>'a\<close>. The theorems
    about order and sums are stated for exact arithmetic (an ordered ring such as
    \<open>rat\<close>); the type \<open>f64\<close> below gives the arithmetic of Python's \<open>float\<close>
    where rounding decides a claim.
  \<^item> Every database function of the script opens the file, runs one statement, commits
    and closes. The model passes the committed content of the file in and out.
    A file that cannot be opened or written is outside the model.
  \<^item> An id handed to the update or the delete is an integer that SQLite can hold
    (64 bits, signed), as the ids read from the table are.
\<close>

subsection \<open>The table and its row ids\<close>

record 'a book =
  book_id :: int
  title :: string
  cost :: "'a"
  price :: "'a"

text \<open>
  \<open>books\<close> holds the rows of the table. \<open>seq\<close> is the entry that SQLite keeps for an
  \<open>AUTOINCREMENT\<close> key in \<open>sqlite_sequence\<close>: the largest row id the table ever held
  (0 while nothing was inserted).
\<close>

record 'a db =
  books :: "'a book list"
  seq :: int

datatype error = OperationalError | ReError

text \<open>
  The reports the specification names for an operation. The functions of the script
  have no \<open>return\<close> statement: they return Python's \<open>None\<close>, which is \<open>None\<close> here.
\<close>

datatype report = Success | NotFound

definition max_rowid :: int where
  "max_rowid = 9223372036854775807"

text \<open>\<open>init_db\<close>: \<open>CREATE TABLE IF NOT EXISTS\<close>. The argument is \<open>None\<close> when the
  file has no table yet.\<close>

definition empty_db :: "'a db" where
  "empty_db = \<lparr>books = [], seq = 0\<rparr>"

definition init_db :: "'a db option \<Rightarrow> 'a db" where
  "init_db file = (case file of None \<Rightarrow> empty_db | Some d \<Rightarrow> d)"

text \<open>
  \<open>INSERT INTO books (title, cost, price) VALUES (?, ?, ?)\<close> on an \<open>INTEGER PRIMARY KEY
  AUTOINCREMENT\<close> column: the new id is one more than the largest id the table holds or
  ever held; when that is the largest 64-bit integer the insert fails (SQLITE\_FULL) and
  nothing is written. The function checks nothing about its arguments.
\<close>

definition largest_rowid :: "'a db \<Rightarrow> int" where
  "largest_rowid d = fold max (map book_id (books d)) (seq d)"

definition add_book_db :: "string \<Rightarrow> 'a \<Rightarrow> 'a \<Rightarrow> 'a db \<Rightarrow> error + (report option \<times> 'a db)" where
  "add_book_db t c p d =
     (let n = largest_rowid d in
      if n \<ge> max_rowid then Inl OperationalError
      else Inr (None,
        \<lparr>books = books d @ [\<lparr>book_id = n + 1, title = t, cost = c, price = p\<rparr>],
         seq = n + 1\<rparr>))"

text \<open>\<open>UPDATE books SET title=?, cost=?, price=? WHERE id=?\<close>: every row with that
  id gets the three values; the others, and \<open>sqlite_sequence\<close>, stay.\<close>

definition update_book_db :: "int \<Rightarrow> string \<Rightarrow> 'a \<Rightarrow> 'a \<Rightarrow> 'a db \<Rightarrow> report option \<times> 'a db" where
  "update_book_db i t c p d =
     (None,
      d\<lparr>books := map (\<lambda>r. if book_id r = i then r\<lparr>title := t, cost := c, price := p\<rparr> else r)
                    (books d)\<rparr>)"

text \<open>\<open>DELETE FROM books WHERE id=?\<close>.\<close>

definition delete_book_db :: "int \<Rightarrow> 'a db \<Rightarrow> report option \<times> 'a db" where
  "delete_book_db i d = (None, d\<lparr>books := filter (\<lambda>r. book_id r \<noteq> i) (books d)\<rparr>)"

subsection \<open>DataFrames\<close>

text \<open>
  A DataFrame of this script has the columns of the table and, once
  \<open>df['profit'] = df['price'] - df['cost']\<close> has run, a column \<open>profit\<close>.
  A row carries \<open>profit = None\<close> while its frame has no such column.
\<close>

record 'a dfrow = "'a book" +
  profit :: "'a option"

record 'a frame =
  columns :: "string list"
  rows :: "'a dfrow list"

definition dfrow_of :: "'a book \<Rightarrow> 'a dfrow" where
  "dfrow_of r =
     \<lparr>book_id = book_id r, title = title r, cost = cost r, price = price r, profit = None\<rparr>"

text \<open>\<open>SELECT id, title, cost, price FROM books ORDER BY id ASC\<close>, read by
  \<open>pd.read_sql_query\<close>.\<close>

definition fetch_books_df :: "'a db \<Rightarrow> 'a frame" where
  "fetch_books_df d =
     \<lparr>columns = [''id'', ''title'', ''cost'', ''price''],
      rows = map dfrow_of (sort_key book_id (books d))\<rparr>"

text \<open>\<open>df.empty\<close>: no rows (a frame of this script always has its columns).\<close>

definition empty_frame :: "'a frame \<Rightarrow> bool" where
  "empty_frame df = (rows df = [])"

text \<open>The invariant of the table that the three statements keep: ids ascend strictly
  in storage order, are positive and never exceed \<open>seq\<close>.\<close>

definition store_ok :: "'a db \<Rightarrow> bool" where
  "store_ok d =
     (sorted_wrt (<) (map book_id (books d)) \<and>
      list_all (\<lambda>r. 1 \<le> book_id r \<and> book_id r \<le> seq d) (books d) \<and>
      0 \<le> seq d \<and> seq d \<le> max_rowid)"

subsection \<open>Sequences of store operations\<close>

text \<open>A history of the table: the statements run since the table was created.
  \<open>run\<close> returns, with the final content, the ids that the inserts assigned, in order.\<close>

datatype 'a op = Add string 'a 'a | Update int string 'a 'a | Delete int

fun run :: "'a op list \<Rightarrow> 'a db \<Rightarrow> error + (int list \<times> 'a db)" where
  "run [] d = Inr ([], d)"
| "run (Add t c p # ops) d =
     (case add_book_db t c p d of
        Inl e \<Rightarrow> Inl e
      | Inr (_, d') \<Rightarrow>
          (case run ops d' of Inl e \<Rightarrow> Inl e | Inr (ids, d'') \<Rightarrow> Inr (seq d' # ids, d'')))"
| "run (Update i t c p # ops) d = run ops (snd (update_book_db i t c p d))"
| "run (Delete i # ops) d = run ops (snd (delete_book_db i d))"

subsection \<open>The form: the callers of the store\<close>

text \<open>\<open>str.strip()\<close>: the white space among the code points below 256.\<close>

definition is_space :: "char \<Rightarrow> bool" where
  "is_space ch = (let n = (of_char ch :: nat) in
     (9 \<le> n \<and> n \<le> 13) \<or> (28 \<le> n \<and> n \<le> 32) \<or> n = 133 \<or> n = 160)"

definition strip :: "string \<Rightarrow> string" where
  "strip s = rev (dropWhile is_space (rev (dropWhile is_space s)))"

text \<open>What the page shows after a submit: \<open>st.error\<close>, \<open>st.warning\<close> or
  \<open>st.success\<close>.\<close>

datatype feedback = St_error | St_warning | St_success

text \<open>
  The branch \<open>mode == "Adicionar livro"\<close> of the form \<open>book_form\<close>, once submitted.
  The amounts come from \<open>st.number_input(min_value=0.0)\<close>; the script itself compares
  them with nothing.
\<close>

definition book_form_add :: "string \<Rightarrow> 'a \<Rightarrow> 'a \<Rightarrow> 'a db \<Rightarrow> error + (feedback \<times> 'a db)" where
  "book_form_add title_in cost_in price_in d =
     (if strip title_in = [] then Inr (St_error, d)
      else (case add_book_db (strip title_in) cost_in price_in d of
              Inl e \<Rightarrow> Inl e
            | Inr (_, d') \<Rightarrow> Inr (St_success, d')))"

text \<open>The other branch of the form (edit), once submitted.\<close>

definition book_form_edit :: "int option \<Rightarrow> string \<Rightarrow> 'a \<Rightarrow> 'a \<Rightarrow> 'a db \<Rightarrow> feedback \<times> 'a db" where
  "book_form_edit selected_book_id title_e cost_e price_e d =
     (case selected_book_id of
        None \<Rightarrow> (St_warning, d)
      | Some i \<Rightarrow>
          if strip title_e = [] then (St_error, d)
          else (St_success, snd (update_book_db i (strip title_e) cost_e price_e d)))"

subsection \<open>The title search and the profit filter\<close>

text \<open>
  \<open>df2['title'].str.contains(search, case=False, na=False)\<close> leaves \<open>regex\<close> at its
  default \<open>True\<close>: pandas compiles \<open>search\<close> with \<open>re.compile(search, re.IGNORECASE)\<close>
  and keeps the titles in which \<open>pattern.search\<close> finds a match.

  Of Python's \<open>re\<close> the model has: patterns made of ordinary characters and \<open>.\<close>
  (any character but a newline), and the patterns that start with a repetition
  operator, which \<open>re.compile\<close> refuses (\<open>nothing to repeat\<close>). What \<open>re\<close> does with
  any other pattern is the parameter \<open>re_other\<close>.
\<close>

definition lower :: "char \<Rightarrow> char" where
  "lower ch = (let n = (of_char ch :: nat) in
     if (65 \<le> n \<and> n \<le> 90) \<or> (192 \<le> n \<and> n \<le> 222 \<and> n \<noteq> 215) then char_of (n + 32) else ch)"

definition re_special :: "char \<Rightarrow> bool" where
  "re_special ch = (ch \<in> set [CHR ''.'', CHR ''^'', CHR ''$'', CHR ''*'', CHR ''+'', CHR ''?'',
     CHR ''{'', CHR ''}'', CHR ''['', CHR '']'', CHR 0x5C, CHR ''|'', CHR ''('', CHR '')''])"

fun match_here :: "string \<Rightarrow> string \<Rightarrow> bool" where
  "match_here [] s = True"
| "match_here (p # ps) [] = False"
| "match_here (p # ps) (c # cs) =
     ((if p = CHR ''.'' then c \<noteq> CHR 0x0A else lower p = lower c) \<and> match_here ps cs)"

fun re_search :: "string \<Rightarrow> string \<Rightarrow> bool" where
  "re_search pat [] = match_here pat []"
| "re_search pat (c # cs) = (match_here pat (c # cs) \<or> re_search pat cs)"

definition re_compile ::
  "(string \<Rightarrow> error + (string \<Rightarrow> bool)) \<Rightarrow> string \<Rightarrow> error + (string \<Rightarrow> bool)" where
  "re_compile re_other pat =
     (if list_all (\<lambda>ch. ch = CHR ''.'' \<or> \<not> re_special ch) pat then Inr (re_search pat)
      else (case pat of
              ch # _ \<Rightarrow> if ch \<in> set [CHR ''*'', CHR ''+'', CHR ''?''] then Inl ReError
                        else re_other pat
            | [] \<Rightarrow> re_other pat))"

text \<open>The options of the select box \<open>Mostrar\<close>.\<close>

datatype profit_filter = Todos | Lucro_positivo | Lucro_negativo_zero

text \<open>\<open>df['profit'] = df['price'] - df['cost']\<close>\<close>

definition assign_profit :: "'a::minus frame \<Rightarrow> 'a frame" where
  "assign_profit df =
     \<lparr>columns = (if ''profit'' \<in> set (columns df) then columns df else columns df @ [''profit'']),
      rows = map (\<lambda>r. r\<lparr>profit := Some (price r - cost r)\<rparr>) (rows df)\<rparr>"

text \<open>\<open>apply_filters\<close> reads the globals \<open>search\<close> and \<open>filter_profit\<close>; they are
  arguments here. A comparison with a missing value is false.\<close>

definition apply_filters ::
  "(string \<Rightarrow> error + (string \<Rightarrow> bool)) \<Rightarrow> string \<Rightarrow> profit_filter \<Rightarrow>
   'a::{minus,zero,ord} frame \<Rightarrow> error + 'a frame" where
  "apply_filters re_other search filter_profit df_orig =
     (case (if search \<noteq> []
            then (case re_compile re_other search of
                    Inl e \<Rightarrow> Inl e
                  | Inr found \<Rightarrow> Inr (df_orig\<lparr>rows := filter (\<lambda>r. found (title r)) (rows df_orig)\<rparr>))
            else Inr df_orig) of
        Inl e \<Rightarrow> Inl e
      | Inr df2 \<Rightarrow>
          if filter_profit \<noteq> Todos then
            let df3 = assign_profit df2 in
            if filter_profit = Lucro_positivo
            then Inr (df3\<lparr>rows := filter (\<lambda>r. case profit r of Some x \<Rightarrow> x > 0 | None \<Rightarrow> False)
                                         (rows df3)\<rparr>)
            else Inr (df3\<lparr>rows := filter (\<lambda>r. case profit r of Some x \<Rightarrow> x \<le> 0 | None \<Rightarrow> False)
                                         (rows df3)\<rparr>)
          else Inr df2)"

text \<open>The filter as the specification words it: the title contains the search text as a
  substring, letter case aside, and the profit has the sign the mode asks for.\<close>

definition keeps :: "string \<Rightarrow> profit_filter \<Rightarrow> 'a::{minus,zero,ord} dfrow \<Rightarrow> bool" where
  "keeps search mode r =
     ((search = [] \<or> sublist (map lower search) (map lower (title r))) \<and>
      (case mode of Todos \<Rightarrow> True
       | Lucro_positivo \<Rightarrow> price r - cost r > 0
       | Lucro_negativo_zero \<Rightarrow> price r - cost r \<le> 0))"

subsection \<open>Totals\<close>

text \<open>
  \<open>total_cost = df['cost'].sum() if not df.empty else 0.0\<close>, and likewise the other
  two; \<open>total_profit\<close> sums the column \<open>df['price'] - df['cost']\<close>. \<open>Series.sum\<close>
  adds the values up from zero.
\<close>

definition total_cost :: "'a::{zero,plus} frame \<Rightarrow> 'a" where
  "total_cost df = (if \<not> empty_frame df then foldl (+) 0 (map cost (rows df)) else 0)"

definition total_price :: "'a::{zero,plus} frame \<Rightarrow> 'a" where
  "total_price df = (if \<not> empty_frame df then foldl (+) 0 (map price (rows df)) else 0)"

definition total_profit :: "'a::{zero,plus,minus} frame \<Rightarrow> 'a" where
  "total_profit df =
     (if \<not> empty_frame df then foldl (+) 0 (map (\<lambda>r. price r - cost r) (rows df)) else 0)"

subsection \<open>Python's float\<close>

text \<open>
  A finite \<open>float\<close> is an IEEE 754 binary64 number, here the rational it stands for.
  An operation returns the exact result rounded to the nearest such number, ties to the
  even significand: 53 bits, the least exponent that of the subnormal numbers.
  Infinities and NaN are not modelled: a result beyond the largest finite number is
  outside the model.
\<close>

definition round_half_even :: "'a::floor_ceiling \<Rightarrow> int" where
  "round_half_even x =
     (let f = \<lfloor>x\<rfloor>; d = x - of_int f in
      if d < 1 / 2 then f else if d > 1 / 2 then f + 1 else if even f then f else f + 1)"

text \<open>The exponent \<open>e\<close> with \<open>2 ^ e \<le> \<bar>x\<bar> < 2 ^ (e + 1)\<close>, for \<open>x \<noteq> 0\<close>.\<close>

definition exponent :: "rat \<Rightarrow> int" where
  "exponent x =
     (let (p, q) = quotient_of \<bar>x\<bar>;
          e = int (floorlog 2 (nat p)) - int (floorlog 2 (nat q))
      in if 2 powi e \<le> \<bar>x\<bar> then e else e - 1)"

definition round_f64 :: "rat \<Rightarrow> rat" where
  "round_f64 x =
     (if x = 0 then 0
      else let q = max (exponent x - 52) (- 1074)
           in of_int (round_half_even (x / 2 powi q)) * 2 powi q)"

datatype f64 = F64 rat

text \<open>A decimal literal such as \<open>0.1\<close>, or \<open>float("0.1")\<close>.\<close>

definition float_lit :: "rat \<Rightarrow> f64" where
  "float_lit x = F64 (round_f64 x)"

fun f64_val :: "f64 \<Rightarrow> rat" where
  "f64_val (F64 x) = x"

instantiation f64 :: "{zero,plus,minus}"
begin

definition zero_f64 :: f64 where
  "zero_f64 = F64 0"

definition plus_f64 :: "f64 \<Rightarrow> f64 \<Rightarrow> f64" where
  "plus_f64 a b = F64 (round_f64 (f64_val a + f64_val b))"

definition minus_f64 :: "f64 \<Rightarrow> f64 \<Rightarrow> f64" where
  "minus_f64 a b = F64 (round_f64 (f64_val a - f64_val b))"

instance ..

end

subsection \<open>The pie chart\<close>

text \<open>
  \<open>prof = df.set_index('title')['profit'].abs().sort_values(ascending=False)\<close>.
  \<open>sort_values\<close> is called without \<open>kind\<close>, so pandas sorts with its default
  \<open>quicksort\<close>, which promises a descending arrangement of the same entries and no
  order among equal values. The sort is the parameter \<open>sort_values\<close>, and
  \<open>sorts_descending\<close> is what it promises at one input.
\<close>

definition sorts_descending :: "(string \<times> 'a::linorder) list \<Rightarrow> (string \<times> 'a) list \<Rightarrow> bool" where
  "sorts_descending xs ys = (mset ys = mset xs \<and> sorted_wrt (\<lambda>a b. snd b \<le> snd a) ys)"

text \<open>The Series \<open>df.set_index('title')['profit'].abs()\<close>, where \<open>profit\<close> is the
  column \<open>df['price'] - df['cost']\<close> the script has just assigned.\<close>

definition abs_profit_by_title :: "'a::{abs,minus} frame \<Rightarrow> (string \<times> 'a) list" where
  "abs_profit_by_title df = map (\<lambda>r. (title r, \<bar>price r - cost r\<bar>)) (rows df)"

text \<open>The labels and values handed to \<open>px.pie\<close>; \<open>None\<close> when the frame is empty and
  the script draws the empty figure.\<close>

definition pie_chart ::
  "((string \<times> 'a) list \<Rightarrow> (string \<times> 'a) list) \<Rightarrow> 'a::{abs,minus,plus,zero} frame \<Rightarrow>
   (string list \<times> 'a list) option" where
  "pie_chart sort_values df =
     (if \<not> empty_frame df then
        let prof = sort_values (abs_profit_by_title df) in
        if length prof > 8 then
          let top = take 8 prof;
              others = foldl (+) 0 (map snd (drop 8 prof))
          in Some (map fst top @ [''Outros''], map snd top @ [others])
        else Some (map fst prof, map snd prof)
      else None)"

subsection \<open>The CSV export\<close>

definition digit :: "nat \<Rightarrow> char" where
  "digit n = char_of (48 + n)"

fun show_nat :: "nat \<Rightarrow> string" where
  "show_nat n = (if n < 10 then [digit n] else show_nat (n div 10) @ [digit (n mod 10)])"

declare show_nat.simps [simp del]

definition show_int :: "int \<Rightarrow> string" where
  "show_int i = (if i < 0 then CHR ''-'' # show_nat (nat (- i)) else show_nat (nat i))"

text \<open>\<open>"%.2f" % x\<close> for a finite \<open>x\<close>: the nearest multiple of 0.01, a tie going to
  the even one; the sign is that of \<open>x\<close>.\<close>

definition format_2f :: "'a::floor_ceiling \<Rightarrow> string" where
  "format_2f x =
     (let n = nat (round_half_even (\<bar>x\<bar> * 100)) in
      (if x < 0 then ''-'' else '''') @ show_nat (n div 100) @ ''.''
        @ [digit (n mod 100 div 10), digit (n mod 10)])"

text \<open>A field as \<open>csv.writer\<close> writes it with \<open>QUOTE_MINIMAL\<close>: in double quotes, its own
  doubled, when it holds a comma, a quote or a character of the line terminator.\<close>

definition csv_field :: "string \<Rightarrow> string \<Rightarrow> string" where
  "csv_field lineterminator s =
     (if list_ex (\<lambda>ch. ch = CHR '','' \<or> ch = CHR 0x22 \<or> ch \<in> set lineterminator) s
      then CHR 0x22 # concat (map (\<lambda>ch. if ch = CHR 0x22 then [ch, ch] else [ch]) s) @ [CHR 0x22]
      else s)"

fun join :: "string \<Rightarrow> string list \<Rightarrow> string" where
  "join sep [] = []"
| "join sep [x] = x"
| "join sep (x # y # ys) = x @ sep @ join sep (y # ys)"

text \<open>The text of one cell: integers as \<open>str\<close> prints them, floats through
  \<open>float_format\<close>, a missing value as the empty string.\<close>

definition cell :: "string \<Rightarrow> 'a::floor_ceiling dfrow \<Rightarrow> string \<Rightarrow> string" where
  "cell lineterminator r col =
     (if col = ''id'' then show_int (book_id r)
      else if col = ''title'' then csv_field lineterminator (title r)
      else if col = ''cost'' then format_2f (cost r)
      else if col = ''price'' then format_2f (price r)
      else (case profit r of Some x \<Rightarrow> format_2f x | None \<Rightarrow> []))"

text \<open>\<open>os.linesep\<close>, by platform.\<close>

datatype os_name = Posix | Nt

fun os_linesep :: "os_name \<Rightarrow> string" where
  "os_linesep Posix = [CHR 0x0A]"
| "os_linesep Nt = [CHR 0x0D, CHR 0x0A]"

text \<open>\<open>df.to_csv(index=False, float_format="%.2f")\<close> with no path returns the text:
  the header line, then one line per row. The line terminator is \<open>os.linesep\<close>.\<close>

definition to_csv :: "string \<Rightarrow> 'a::floor_ceiling frame \<Rightarrow> string" where
  "to_csv lineterminator df =
     concat (map (\<lambda>fields. join '','' fields @ lineterminator)
       (map (csv_field lineterminator) (columns df)
        # map (\<lambda>r. map (cell lineterminator r) (columns df)) (rows df)))"

text \<open>\<open>str.encode('utf-8-sig')\<close>: the byte order mark, then UTF-8. A \<open>char\<close> of the
  result is a byte.\<close>

definition bom :: "char list" where
  "bom = [CHR 0xEF, CHR 0xBB, CHR 0xBF]"

definition utf8 :: "char \<Rightarrow> char list" where
  "utf8 ch = (let n = (of_char ch :: nat) in
     if n < 128 then [ch] else [char_of (192 + n div 64), char_of (128 + n mod 64)])"

definition to_csv_bytes :: "os_name \<Rightarrow> 'a::floor_ceiling frame \<Rightarrow> char list" where
  "to_csv_bytes os df = bom @ concat (map utf8 (to_csv (os_linesep os) df))"

text \<open>The side bar's button \<open>Exportar CSV (todos)\<close>: nothing to download when the table
  is empty.\<close>

definition export_csv :: "os_name \<Rightarrow> 'a::floor_ceiling db \<Rightarrow> char list option" where
  "export_csv os d =
     (let df_export = fetch_books_df d in
      if empty_frame df_export then None else Some (to_csv_bytes os df_export))"

text \<open>What the claims ask of the bytes: a number with exactly two decimals, and the
  header the specification names.\<close>

definition is_digit :: "char \<Rightarrow> bool" where
  "is_digit ch = (48 \<le> (of_char ch :: nat) \<and> (of_char ch :: nat) \<le> 57)"

definition two_decimals :: "string \<Rightarrow> bool" where
  "two_decimals s =
     (let body = (if s \<noteq> [] \<and> hd s = CHR ''-'' then tl s else s); n = length body in
      4 \<le> n \<and> list_all is_digit (take (n - 3) body) \<and> body ! (n - 3) = CHR ''.''
      \<and> is_digit (body ! (n - 2)) \<and> is_digit (body ! (n - 1)))"

definition spec_header :: string where
  "spec_header = ''Display Index,ID,Title,Cost,Price,Profit''"

subsection \<open>Example tables\<close>

text \<open>The three books of the specification's example.\<close>

definition shelf :: "rat db" where
  "shelf = \<lparr>books = [\<lparr>book_id = 1, title = ''Dune'', cost = 10, price = 25\<rparr>,
                     \<lparr>book_id = 2, title = ''Foundation'', cost = 8, price = 8\<rparr>,
                     \<lparr>book_id = 3, title = ''Neuromancer'', cost = 12, price = 9\<rparr>], seq = 3\<rparr>"

text \<open>The same three inserts followed by the deletion of the newest book.\<close>

definition history :: "rat op list" where
  "history = [Add ''Dune'' 10 25, Add ''Foundation'' 8 8, Add ''Neuromancer'' 12 9, Delete 3]"

definition after_delete :: "rat db" where
  "after_delete = \<lparr>books = [\<lparr>book_id = 1, title = ''Dune'', cost = 10, price = 25\<rparr>,
                            \<lparr>book_id = 2, title = ''Foundation'', cost = 8, price = 8\<rparr>], seq = 3\<rparr>"

text \<open>
  Two books priced in tenths, with Python's floats: costs \<open>0.3\<close> and \<open>0.0\<close>, prices
  \<open>0.1\<close> and \<open>0.2\<close>, and the binary64 numbers that occur in their totals.
\<close>

definition float_shelf :: "f64 db" where
  "float_shelf =
     \<lparr>books = [\<lparr>book_id = 1, title = ''A'', cost = float_lit (3 / 10), price = float_lit (1 / 10)\<rparr>,
               \<lparr>book_id = 2, title = ''B'', cost = float_lit 0, price = float_lit (1 / 5)\<rparr>],
      seq = 2\<rparr>"

definition d01 :: rat where
  "d01 = 3602879701896397 / 2 ^ 55"

definition d02 :: rat where
  "d02 = 3602879701896397 / 2 ^ 54"

definition d03 :: rat where
  "d03 = 5404319552844595 / 2 ^ 54"

definition d03_up :: rat where
  "d03_up = 5404319552844596 / 2 ^ 54"

definition d02_down :: rat where
  "d02_down = 7205759403792793 / 2 ^ 55"

text \<open>A sort that meets the promise of \<open>sort_values\<close> and turns equal values around:
  the ascending stable sort, reversed.\<close>

definition reversing_sort :: "(string \<times> 'a::linorder) list \<Rightarrow> (string \<times> 'a) list" where
  "reversing_sort xs = rev (sort_key snd xs)"


text \<open>Ten books.\<close>

definition ten_books :: "rat db" where
  "ten_books = \<lparr>books =
     [\<lparr>book_id = 1, title = ''B1'', cost = 10, price = 25\<rparr>,
      \<lparr>book_id = 2, title = ''B2'', cost = 8, price = 8\<rparr>,
      \<lparr>book_id = 3, title = ''B3'', cost = 12, price = 9\<rparr>,
      \<lparr>book_id = 4, title = ''B4'', cost = 5, price = 12\<rparr>,
      \<lparr>book_id = 5, title = ''B5'', cost = 20, price = 10\<rparr>,
      \<lparr>book_id = 6, title = ''B6'', cost = 3, price = 4\<rparr>,
      \<lparr>book_id = 7, title = ''B7'', cost = 6, price = 18\<rparr>,
      \<lparr>book_id = 8, title = ''B8'', cost = 9, price = 7\<rparr>,
      \<lparr>book_id = 9, title = ''B9'', cost = 1, price = 7\<rparr>,
      \<lparr>book_id = 10, title = ''B10'', cost = 30, price = 50\<rparr>], seq = 10\<rparr>"

section \<open>The record store\<close>

subsection \<open>The invariant\<close>

lemma fold_max_le: "(\<And>x. x \<in> set xs \<Longrightarrow> x \<le> (s::int)) \<Longrightarrow> fold max xs s = s"
  by (induction xs) (auto simp: max_def)

lemma largest_rowid_ok: "store_ok d \<Longrightarrow> largest_rowid d = seq d"
  unfolding largest_rowid_def store_ok_def
  by (rule fold_max_le) (auto simp: list_all_iff)

lemma store_ok_empty: "store_ok empty_db"
  by (simp add: store_ok_def empty_db_def max_rowid_def)

lemma add_book_db_ok:
  assumes "store_ok d" "seq d < max_rowid"
  shows "add_book_db t c p d =
     Inr (None, \<lparr>books = books d @ [\<lparr>book_id = seq d + 1, title = t, cost = c, price = p\<rparr>],
                 seq = seq d + 1\<rparr>)"
  using assms by (simp add: add_book_db_def largest_rowid_ok Let_def)

lemma add_book_db_full:
  assumes "store_ok d" "\<not> seq d < max_rowid"
  shows "add_book_db t c p d = Inl OperationalError"
  using assms by (simp add: add_book_db_def largest_rowid_ok Let_def)

lemma store_ok_add:
  assumes "store_ok d" "add_book_db t c p d = Inr (r, d')"
  shows "store_ok d' \<and> seq d' = seq d + 1"
proof -
  have lt: "seq d < max_rowid"
    using assms add_book_db_full[OF assms(1)] by (cases "seq d < max_rowid") auto
  have d': "d' = \<lparr>books = books d @ [\<lparr>book_id = seq d + 1, title = t, cost = c, price = p\<rparr>],
                 seq = seq d + 1\<rparr>"
    using add_book_db_ok[OF assms(1) lt, of t c p] assms(2) by simp
  show ?thesis using assms(1) lt unfolding d' store_ok_def
    by (auto simp: sorted_wrt_append list_all_iff)
qed

lemma update_ids:
  "book_id \<circ> (\<lambda>r. if book_id r = i then r\<lparr>title := t, cost := c, price := p\<rparr> else r)
     = book_id"
  by (auto simp: fun_eq_iff)

lemma store_ok_update: "store_ok d \<Longrightarrow> store_ok (snd (update_book_db i t c p d))"
  by (auto simp: store_ok_def update_book_db_def list_all_iff update_ids)

lemma store_ok_delete: "store_ok d \<Longrightarrow> store_ok (snd (delete_book_db i d))"
  by (auto simp: store_ok_def delete_book_db_def list_all_iff sorted_wrt_map sorted_wrt_filter)

lemma seq_update: "seq (snd (update_book_db i t c p d)) = seq d"
  by (simp add: update_book_db_def)

lemma seq_delete: "seq (snd (delete_book_db i d)) = seq d"
  by (simp add: delete_book_db_def)

text \<open>Every history keeps the invariant, and every id it assigned lies between the
  old and the new value of \<open>seq\<close>.\<close>

lemma run_ok:
  "store_ok d \<Longrightarrow> run ops d = Inr (ids, d') \<Longrightarrow>
     store_ok d' \<and> seq d \<le> seq d' \<and> (\<forall>j\<in>set ids. seq d < j \<and> j \<le> seq d')"
proof (induction ops d arbitrary: ids d' rule: run.induct)
  case (1 d)
  then show ?case by simp
next
  case (2 t c p ops d)
  from "2.prems"(2) obtain r d1 where a: "add_book_db t c p d = Inr (r, d1)"
    by (auto split: sum.splits)
  with "2.prems"(2) obtain ids1 where r: "run ops d1 = Inr (ids1, d')" and i: "ids = seq d1 # ids1"
    by (auto split: sum.splits prod.splits)
  from store_ok_add[OF "2.prems"(1) a] have ok1: "store_ok d1" and s1: "seq d1 = seq d + 1" by auto
  from "2.IH"[OF a refl ok1 r] show ?case using s1 i by auto
next
  case (3 i t c p ops d)
  from "3.IH"[OF store_ok_update[OF "3.prems"(1)]] "3.prems"(2) show ?case
    by (simp add: seq_update)
next
  case (4 i ops d)
  from "4.IH"[OF store_ok_delete[OF "4.prems"(1)]] "4.prems"(2) show ?case
    by (simp add: seq_delete)
qed

lemma fetch_sorted: "store_ok d \<Longrightarrow> rows (fetch_books_df d) = map dfrow_of (books d)"
  by (simp add: fetch_books_df_def store_ok_def sort_key_id_if_sorted strict_sorted_imp_sorted)

lemma update_absent:
  "i \<notin> book_id ` set bs \<Longrightarrow>
   map (\<lambda>r. if book_id r = i then r\<lparr>title := t, cost := c, price := p\<rparr> else r) bs = bs"
  by (induction bs) auto


lemma run_history: "run history (init_db None) = Inr ([1, 2, 3], after_delete)"
  by (simp add: history_def init_db_def add_book_db_def empty_db_def largest_rowid_def
      max_rowid_def delete_book_db_def after_delete_def)

subsection \<open>Update of a present id\<close>

text \<open>
  Claim C8. For an id present in the store, \<open>update_book_db\<close> changes the title, cost and
  price of exactly that record: the listing before is \<open>pre @ r # post\<close> with \<open>r\<close> the record
  of that id, and the listing after is the same \<open>pre\<close> and \<open>post\<close> around \<open>r\<close> with the
  three fields replaced. No other record has that id; the id of \<open>r\<close>, every other
  record and the id counter are as before.
\<close>

theorem update_changes_one_record:
  assumes "store_ok d" and "i \<in> book_id ` set (books d)"
  shows "\<exists>pre r post.
           rows (fetch_books_df d) = pre @ r # post
         \<and> book_id r = i
         \<and> rows (fetch_books_df (snd (update_book_db i t c p d)))
             = pre @ r\<lparr>title := t, cost := c, price := p\<rparr> # post
         \<and> list_all (\<lambda>x. book_id x \<noteq> i) (pre @ post)
         \<and> seq (snd (update_book_db i t c p d)) = seq d"
proof -
  let ?u = "\<lambda>r::'a book. if book_id r = i then r\<lparr>title := t, cost := c, price := p\<rparr> else r"
  from assms(2) obtain b where b: "b \<in> set (books d)" "book_id b = i" by auto
  then obtain xs ys where split: "books d = xs @ b # ys" by (auto dest: split_list)
  have dist: "distinct (map book_id (books d))"
    using assms(1) by (simp add: store_ok_def strict_sorted_iff)
  have xs: "i \<notin> book_id ` set xs" and ys: "i \<notin> book_id ` set ys"
    using dist b(2) unfolding split by auto
  have upd: "map ?u (books d) = xs @ b\<lparr>title := t, cost := c, price := p\<rparr> # ys"
    unfolding split using b(2) update_absent[OF xs] update_absent[OF ys] by simp
  have after: "rows (fetch_books_df (snd (update_book_db i t c p d)))
        = map dfrow_of (xs @ b\<lparr>title := t, cost := c, price := p\<rparr> # ys)"
    using fetch_sorted[OF store_ok_update[OF assms(1)], of i t c p] upd
    by (simp add: update_book_db_def)
  have before: "rows (fetch_books_df d) = map dfrow_of (xs @ b # ys)"
    using fetch_sorted[OF assms(1)] split by simp
  have "dfrow_of (b\<lparr>title := t, cost := c, price := p\<rparr>) = (dfrow_of b)\<lparr>title := t, cost := c, price := p\<rparr>"
    by (simp add: dfrow_of_def)
  moreover have "list_all (\<lambda>x. book_id x \<noteq> i) (map dfrow_of xs @ map dfrow_of ys)"
    using xs ys by (auto simp: list_all_iff dfrow_of_def)
  ultimately show ?thesis using before after b(2)
    by (intro exI[of _ "map dfrow_of xs"] exI[of _ "dfrow_of b"] exI[of _ "map dfrow_of ys"])
       (simp add: dfrow_of_def update_book_db_def)
qed

theorem update_changes_one_record_witness:
  "\<exists>pre r post.
      rows (fetch_books_df after_delete) = pre @ r # post \<and> book_id r = 2
    \<and> rows (fetch_books_df (snd (update_book_db 2 ''Foundation and Empire'' 9 11 after_delete)))
        = pre @ r\<lparr>title := ''Foundation and Empire'', cost := 9, price := 11\<rparr> # post
    \<and> list_all (\<lambda>x. book_id x \<noteq> 2) (pre @ post)
    \<and> seq (snd (update_book_db 2 ''Foundation and Empire'' 9 11 after_delete)) = 3"
  using update_changes_one_record[of after_delete 2 "''Foundation and Empire''" 9 11]
  by (simp add: after_delete_def store_ok_def max_rowid_def)

subsection \<open>Fresh ids\<close>

text \<open>
  Claim C9. After any history of inserts, updates and deletes on the table that
  \<open>init_db\<close> creates, and while
  the 64-bit ids are not used up, \<open>add_book_db\<close> returns and the listing is the old
  listing followed by exactly one new record with the given title, cost and price. Its id
  is greater than every id the history assigned, also than those of deleted records, and
  than every id in the table; the ids of the new listing are distinct.
\<close>

theorem add_assigns_fresh_id:
  assumes "run ops (init_db None) = Inr (ids, d)" and "seq d < max_rowid"
  shows "\<exists>d'. add_book_db t c p d = Inr (None, d')
       \<and> rows (fetch_books_df d')
           = rows (fetch_books_df d)
             @ [\<lparr>book_id = seq d + 1, title = t, cost = c, price = p, profit = None\<rparr>]
       \<and> list_all (\<lambda>j. j < seq d + 1) ids
       \<and> list_all (\<lambda>r. book_id r < seq d + 1) (rows (fetch_books_df d))
       \<and> distinct (map book_id (rows (fetch_books_df d')))
       \<and> seq d' = seq d + 1"
proof -
  have "run ops empty_db = Inr (ids, d)" using assms(1) by (simp add: init_db_def)
  from run_ok[OF store_ok_empty this]
  have ok: "store_ok d" and ids: "\<forall>j\<in>set ids. j \<le> seq d" by auto
  let ?d' = "\<lparr>books = books d @ [\<lparr>book_id = seq d + 1, title = t, cost = c, price = p\<rparr>],
             seq = seq d + 1\<rparr>"
  have a: "add_book_db t c p d = Inr (None, ?d')" by (rule add_book_db_ok[OF ok assms(2)])
  from store_ok_add[OF ok a] have ok': "store_ok ?d'" by simp
  have "(book_id \<circ> dfrow_of :: 'a book \<Rightarrow> int) = book_id"
    by (simp add: dfrow_of_def fun_eq_iff)
  then have "rows (fetch_books_df ?d')
           = rows (fetch_books_df d)
             @ [\<lparr>book_id = seq d + 1, title = t, cost = c, price = p, profit = None\<rparr>]
       \<and> list_all (\<lambda>j. j < seq d + 1) ids
       \<and> list_all (\<lambda>r. book_id r < seq d + 1) (rows (fetch_books_df d))
       \<and> distinct (map book_id (rows (fetch_books_df ?d')))
       \<and> seq ?d' = seq d + 1"
    using fetch_sorted[OF ok] fetch_sorted[OF ok'] ids ok
    by (auto simp: list_all_iff store_ok_def strict_sorted_iff dfrow_of_def)
  with a show ?thesis by blast
qed

text \<open>Ids 1, 2 and 3 were assigned and 3 was deleted: the next book gets 4, not 3.\<close>

theorem add_assigns_fresh_id_witness:
  "\<exists>d'. add_book_db ''Snow Crash'' 5 7 after_delete = Inr (None, d')
     \<and> rows (fetch_books_df d')
        = [\<lparr>book_id = 1, title = ''Dune'', cost = 10, price = 25, profit = None\<rparr>,
           \<lparr>book_id = 2, title = ''Foundation'', cost = 8, price = 8, profit = None\<rparr>,
           \<lparr>book_id = 4, title = ''Snow Crash'', cost = 5, price = 7, profit = None\<rparr>]
     \<and> seq d' = 4"
  using add_assigns_fresh_id[OF run_history, of "''Snow Crash''" 5 7]
  by (auto simp: after_delete_def max_rowid_def fetch_books_df_def dfrow_of_def)

subsection \<open>An id that is not in the table\<close>




subsection \<open>Validation\<close>

text \<open>
  Claim C1, as the code has it. The store functions validate nothing: \<open>add_book_db\<close>
  writes the row it is given whatever the title and the amounts are. The check is in
  the callers: when the title is empty after trimming, the add form and the edit form
  show an error (the edit form a warning when no book is selected) and write nothing.
  The script compares cost and price with nothing; only the number inputs
  (\<open>min_value=0.0\<close>) keep them from being negative.
\<close>

theorem validation_is_in_the_form:
  assumes "strip title_in = []" and "store_ok d" and "seq d < max_rowid"
  shows "book_form_add title_in c p d = Inr (St_error, d)
       \<and> snd (book_form_edit sel title_in c p d) = d
       \<and> fst (book_form_edit sel title_in c p d) \<noteq> St_success
       \<and> add_book_db title_in c p d
           = Inr (None, \<lparr>books = books d @ [\<lparr>book_id = seq d + 1, title = title_in,
                                                cost = c, price = p\<rparr>],
                         seq = seq d + 1\<rparr>)"
  using assms add_book_db_ok[OF assms(2,3), of title_in c p]
  by (simp add: book_form_add_def book_form_edit_def split: option.splits)

theorem validation_is_in_the_form_witness:
  "book_form_add ''   '' (- 1) (- 2) after_delete = Inr (St_error, after_delete)
   \<and> snd (book_form_edit (Some 2) ''   '' (- 1) (- 2) after_delete) = after_delete
   \<and> fst (book_form_edit (Some 2) ''   '' (- 1) (- 2) after_delete) \<noteq> St_success
   \<and> add_book_db ''   '' (- 1) (- 2) after_delete
       = Inr (None, \<lparr>books = books after_delete @ [\<lparr>book_id = 4, title = ''   '',
                                                        cost = - 1, price = - 2\<rparr>],
                     seq = 4\<rparr>)"
  using validation_is_in_the_form[of "''   ''" after_delete "- 1" "- 2" "Some 2"]
  by (simp add: strip_def is_space_def after_delete_def store_ok_def max_rowid_def)

text \<open>
  The claim as stated fails: called with an empty title and negative amounts, the
  store's add returns normally and the row is in the table; the store's update writes
  an empty title and negative amounts into the row of id 1.
\<close>

theorem store_writes_invalid_book:
  "add_book_db [] (- 1) (- 2) (empty_db :: rat db)
     = Inr (None, \<lparr>books = [\<lparr>book_id = 1, title = [], cost = - 1, price = - 2\<rparr>], seq = 1\<rparr>)
   \<and> rows (fetch_books_df (snd (update_book_db 1 [] (- 1) (- 2) shelf)))
     = [\<lparr>book_id = 1, title = [], cost = - 1, price = - 2, profit = None\<rparr>,
        \<lparr>book_id = 2, title = ''Foundation'', cost = 8, price = 8, profit = None\<rparr>,
        \<lparr>book_id = 3, title = ''Neuromancer'', cost = 12, price = 9, profit = None\<rparr>]"
  by (simp add: add_book_db_def empty_db_def largest_rowid_def max_rowid_def update_book_db_def
      shelf_def fetch_books_df_def dfrow_of_def)

section \<open>The metrics\<close>

subsection \<open>Rounding to binary64\<close>

lemma powi2_less_imp: "(2::rat) powi m < 2 powi n \<Longrightarrow> m < n"
  using power_int_increasing[of n m "2::rat"] by (cases "m < n") auto

lemma frac_bounds:
  fixes P Q :: rat
  assumes "2 ^ (a - 1) \<le> P" "P < 2 ^ a" "0 < a" "2 ^ (b - 1) \<le> Q" "Q < 2 ^ b" "0 < (b::nat)"
  shows "2 powi (int a - int b - 1) < P / Q" "P / Q < 2 powi (int a - int b + 1)"
proof -
  have Qpos: "0 < Q" using assms(4) by (meson less_le_trans zero_less_numeral zero_less_power)
  have Ppos: "0 < P" using assms(1) by (meson less_le_trans zero_less_numeral zero_less_power)
  have i1: "int a - int b - 1 = int (a - 1) - int b" using assms(3) by linarith
  have "(2::rat) powi (int (a - 1) - int b) = 2 powi int (a - 1) / 2 powi int b"
    by (rule power_int_diff) simp
  then have e1: "(2::rat) powi (int a - int b - 1) = 2 ^ (a - 1) / 2 ^ b"
    unfolding i1 by (simp only: power_int_of_nat)
  have i2: "int a - int b + 1 = int a - int (b - 1)" using assms(6) by linarith
  have "(2::rat) powi (int a - int (b - 1)) = 2 powi int a / 2 powi int (b - 1)"
    by (rule power_int_diff) simp
  then have e2: "(2::rat) powi (int a - int b + 1) = 2 ^ a / 2 ^ (b - 1)"
    unfolding i2 by (simp only: power_int_of_nat)
  have "2 ^ (a - 1) / 2 ^ b < P / Q"
    using assms Qpos Ppos by (intro frac_less2) auto
  then show "2 powi (int a - int b - 1) < P / Q" by (simp only: e1)
  have "P / Q < 2 ^ a / 2 ^ (b - 1)"
    using assms Qpos Ppos by (intro frac_less) auto
  then show "P / Q < 2 powi (int a - int b + 1)" by (simp only: e2)
qed

lemma exponent_bounds:
  assumes "x \<noteq> 0"
  shows "2 powi (exponent x) \<le> \<bar>x\<bar> \<and> \<bar>x\<bar> < 2 powi (exponent x + 1)"
proof -
  obtain p q where pq: "quotient_of \<bar>x\<bar> = (p, q)" by (cases "quotient_of \<bar>x\<bar>")
  have q: "0 < q" using pq by (rule quotient_of_denom_pos)
  have x: "\<bar>x\<bar> = of_int p / of_int q" using pq by (rule quotient_of_div)
  have "0 < \<bar>x\<bar>" using assms by simp
  then have p: "0 < p" using q unfolding x by (simp add: zero_less_divide_iff)
  define a where "a = floorlog 2 (nat p)"
  define b where "b = floorlog 2 (nat q)"
  have a: "2 ^ (a - 1) \<le> nat p" "nat p < 2 ^ a" "0 < a"
    using floorlog_bounds[of "nat p" 2] p floorlog_eq_zero_iff[of 2 "nat p"] by (auto simp: a_def)
  have b: "2 ^ (b - 1) \<le> nat q" "nat q < 2 ^ b" "0 < b"
    using floorlog_bounds[of "nat q" 2] q floorlog_eq_zero_iff[of 2 "nat q"] by (auto simp: b_def)
  have ofp: "(of_int p :: rat) = of_nat (nat p)" using p by simp
  have ofq: "(of_int q :: rat) = of_nat (nat q)" using q by simp
  have pa: "(2::rat) ^ (a - 1) \<le> of_int p" "(of_int p :: rat) < 2 ^ a"
    unfolding ofp using a(1,2) by (metis of_nat_le_iff of_nat_numeral of_nat_power, metis of_nat_less_iff of_nat_numeral of_nat_power)
  have qb: "(2::rat) ^ (b - 1) \<le> of_int q" "(of_int q :: rat) < 2 ^ b"
    unfolding ofq using b(1,2) by (metis of_nat_le_iff of_nat_numeral of_nat_power, metis of_nat_less_iff of_nat_numeral of_nat_power)
  note fb = frac_bounds[OF pa a(3) qb b(3), folded x]
  have e: "exponent x = (if 2 powi (int a - int b) \<le> \<bar>x\<bar> then int a - int b else int a - int b - 1)"
    by (simp add: exponent_def pq a_def b_def Let_def)
  show ?thesis using fb unfolding e by (auto simp: less_imp_le)
qed

lemma exponent_unique:
  assumes "2 powi e \<le> \<bar>x\<bar>" "\<bar>x\<bar> < 2 powi (e + 1)"
  shows "exponent x = e"
proof -
  have "(0::rat) < 2 powi e" by simp
  then have "0 < \<bar>x\<bar>" using assms(1) by (rule less_le_trans)
  then have "x \<noteq> 0" by simp
  from exponent_bounds[OF this] assms
  have "(2::rat) powi e < 2 powi (exponent x + 1)" "(2::rat) powi exponent x < 2 powi (e + 1)"
    by auto
  then have "e < exponent x + 1" "exponent x < e + 1"
    by (auto dest: powi2_less_imp)
  then show ?thesis by simp
qed

lemma round_f64_eq:
  assumes "2 powi (q + 52) \<le> \<bar>x\<bar>" "\<bar>x\<bar> < 2 powi (q + 53)" "- 1074 \<le> q"
  shows "round_f64 x = of_int (round_half_even (x / 2 powi q)) * 2 powi q"
proof -
  have "(0::rat) < 2 powi (q + 52)" by simp
  then have "0 < \<bar>x\<bar>" using assms(1) by (rule less_le_trans)
  then have "x \<noteq> 0" by simp
  moreover have "exponent x = q + 52" using assms(1,2) by (intro exponent_unique) (simp_all add: add.commute)
  ultimately show ?thesis using assms(3) by (simp add: round_f64_def Let_def max_def)
qed

lemma round_half_even_near:
  fixes x :: "'a::floor_ceiling"
  assumes "of_int n - 1 / 2 < x" "x < of_int n + 1 / 2"
  shows "round_half_even x = n"
proof -
  have "of_int (n - 1) \<le> x" using assms(1) by (simp only: of_int_diff of_int_1)
  then have lo: "n - 1 \<le> \<lfloor>x\<rfloor>" by (simp only: le_floor_iff)
  have "x < of_int (n + 1)" using assms(2) by (simp only: of_int_add of_int_1)
  then have hi: "\<lfloor>x\<rfloor> < n + 1" by (simp only: floor_less_iff)
  from lo hi have "\<lfloor>x\<rfloor> = n \<or> \<lfloor>x\<rfloor> = n - 1" by linarith
  then show ?thesis
  proof
    assume f: "\<lfloor>x\<rfloor> = n"
    have "x - of_int n < 1 / 2" using assms(2) by linarith
    then show ?thesis unfolding round_half_even_def Let_def f by (simp only: if_True)
  next
    assume f: "\<lfloor>x\<rfloor> = n - 1"
    have d: "1 / 2 < x - of_int (n - 1)" using assms(1) by (simp only: of_int_diff of_int_1)
    then have nd: "\<not> x - of_int (n - 1) < 1 / 2" by linarith
    show ?thesis unfolding round_half_even_def Let_def f using d nd by (simp only: if_True if_False diff_add_cancel)
  qed
qed

lemma round_half_even_tie:
  fixes x :: "'a::floor_ceiling"
  assumes "x = of_int n + 1 / 2"
  shows "round_half_even x = (if even n then n else n + 1)"
proof -
  have "\<lfloor>x\<rfloor> = n" unfolding assms by (rule floor_unique) simp_all
  then show ?thesis using assms by (simp add: round_half_even_def Let_def)
qed

lemma round_f64_near:
  assumes "2 powi (q + 52) \<le> \<bar>x\<bar>" "\<bar>x\<bar> < 2 powi (q + 53)" "- 1074 \<le> q"
    and "of_int m - 1 / 2 < x / 2 powi q" "x / 2 powi q < of_int m + 1 / 2"
  shows "round_f64 x = of_int m * 2 powi q"
  by (simp only: round_f64_eq[OF assms(1-3)] round_half_even_near[OF assms(4,5)])

lemma round_f64_tie:
  assumes "2 powi (q + 52) \<le> \<bar>x\<bar>" "\<bar>x\<bar> < 2 powi (q + 53)" "- 1074 \<le> q"
    and "x / 2 powi q = of_int m + 1 / 2"
  shows "round_f64 x = of_int (if even m then m else m + 1) * 2 powi q"
  by (simp only: round_f64_eq[OF assms(1-3)] round_half_even_tie[OF assms(4)])

lemma lit01: "float_lit (1 / 10) = F64 d01"
  unfolding float_lit_def d01_def
  by (subst round_f64_near[where q = "-56" and m = 7205759403792794]) simp_all

lemma lit02: "float_lit (1 / 5) = F64 d02"
  unfolding float_lit_def d02_def
  by (subst round_f64_near[where q = "-55" and m = 7205759403792794]) simp_all

lemma lit03: "float_lit (3 / 10) = F64 d03"
  unfolding float_lit_def d03_def
  by (subst round_f64_near[where q = "-54" and m = 5404319552844595]) simp_all

lemma lit00: "float_lit 0 = F64 0"
  by (simp add: float_lit_def round_f64_def)

lemma zero_plus_f64: "round_f64 x = x \<Longrightarrow> 0 + F64 x = F64 x"
  by (simp add: plus_f64_def zero_f64_def)

lemma rd01: "round_f64 d01 = d01"
  unfolding d01_def
  by (subst round_f64_near[where q = "-56" and m = 7205759403792794]) simp_all

lemma rd03: "round_f64 d03 = d03"
  unfolding d03_def
  by (subst round_f64_near[where q = "-54" and m = 5404319552844595]) simp_all

lemma rd02_down: "round_f64 (- d02_down) = - d02_down"
  unfolding d02_down_def
  by (subst round_f64_near[where q = "-55" and m = "-7205759403792793"]) simp_all

lemma sum_prices: "F64 d01 + F64 d02 = F64 d03_up"
  unfolding plus_f64_def f64_val.simps d01_def d02_def d03_up_def
  by (subst round_f64_tie[where q = "-54" and m = 5404319552844595]) simp_all

lemma sum_costs: "F64 d03 + F64 0 = F64 d03"
  by (simp add: plus_f64_def rd03)

lemma diff_totals: "F64 d03_up - F64 d03 = F64 (1 / 2 ^ 54)"
  unfolding minus_f64_def f64_val.simps d03_def d03_up_def
  by (subst round_f64_near[where q = "-106" and m = 4503599627370496]) simp_all

lemma profit_1: "F64 d01 - F64 d03 = F64 (- d02_down)"
  unfolding minus_f64_def f64_val.simps d03_def d01_def d02_down_def
  by (subst round_f64_near[where q = "-55" and m = "-7205759403792793"]) simp_all

lemma profit_2: "F64 d02 - F64 0 = F64 d02"
  unfolding minus_f64_def f64_val.simps d02_def
  by (subst round_f64_near[where q = "-55" and m = "7205759403792794"]) simp_all

lemma sum_profits: "F64 (- d02_down) + F64 d02 = F64 (1 / 2 ^ 55)"
  unfolding plus_f64_def f64_val.simps d02_def d02_down_def
  by (subst round_f64_near[where q = "-107" and m = 4503599627370496]) simp_all

lemma float_shelf_rows:
  "rows (fetch_books_df float_shelf) =
     [\<lparr>book_id = 1, title = ''A'', cost = F64 d03, price = F64 d01, profit = None\<rparr>,
      \<lparr>book_id = 2, title = ''B'', cost = F64 0, price = F64 d02, profit = None\<rparr>]"
  by (simp add: float_shelf_def fetch_books_df_def dfrow_of_def lit00 lit01 lit02 lit03)


subsection \<open>Totals\<close>

lemma foldl_plus_sum_list: "foldl (+) a xs = (a::'a::monoid_add) + sum_list xs"
  by (induction xs arbitrary: a) (simp_all add: add.assoc)

text \<open>
  Claim C6, as the code has it. \<open>total_cost\<close> is the sum of the costs, \<open>total_price\<close> the
  sum of the prices, and \<open>total_profit\<close> the sum of the differences \<open>price - cost\<close>, row by
  row; for a frame without rows all three are 0. Where sums and differences are exact
  (no rounding: an abelian group such as the rationals or amounts in whole cents),
  \<open>total_profit\<close> equals \<open>total_price\<close> minus \<open>total_cost\<close>.
\<close>

theorem total_profit_is_price_minus_cost:
  fixes df :: "'a::ab_group_add frame"
  shows "total_profit df = total_price df - total_cost df
       \<and> total_cost df = sum_list (map cost (rows df))
       \<and> total_price df = sum_list (map price (rows df))
       \<and> total_cost (df\<lparr>rows := []\<rparr>) = 0
       \<and> total_price (df\<lparr>rows := []\<rparr>) = 0
       \<and> total_profit (df\<lparr>rows := []\<rparr>) = 0"
  by (simp add: total_profit_def total_price_def total_cost_def empty_frame_def
      foldl_plus_sum_list sum_list_subtractf)

text \<open>The specification's example: 30.00, 42.00 and 12.00.\<close>

theorem total_profit_is_price_minus_cost_witness:
  "total_cost (fetch_books_df shelf) = 30 \<and> total_price (fetch_books_df shelf) = 42
   \<and> total_profit (fetch_books_df shelf) = 42 - 30"
  using total_profit_is_price_minus_cost[of "fetch_books_df shelf"]
  by (simp add: shelf_def fetch_books_df_def dfrow_of_def)

text \<open>
  The claim as stated fails on the script's floats. With costs \<open>0.3, 0.0\<close> and prices
  \<open>0.1, 0.2\<close> the script's \<open>total_profit\<close> is \<open>(0.1 - 0.3) + (0.2 - 0.0) = 2 ^ -55\<close>,
  while \<open>total_price - total_cost\<close> is \<open>(0.1 + 0.2) - (0.3 + 0.0) = 2 ^ -54\<close>.
\<close>

theorem float_totals_differ:
  "total_profit (fetch_books_df float_shelf) = F64 (1 / 2 ^ 55)
   \<and> total_price (fetch_books_df float_shelf) - total_cost (fetch_books_df float_shelf)
       = F64 (1 / 2 ^ 54)
   \<and> total_profit (fetch_books_df float_shelf)
       \<noteq> total_price (fetch_books_df float_shelf) - total_cost (fetch_books_df float_shelf)"
proof -
  have tc: "total_cost (fetch_books_df float_shelf) = F64 d03"
    by (simp add: total_cost_def empty_frame_def float_shelf_rows zero_plus_f64 rd03 sum_costs)
  have tp: "total_price (fetch_books_df float_shelf) = F64 d03_up"
    by (simp add: total_price_def empty_frame_def float_shelf_rows zero_plus_f64 rd01 sum_prices)
  have tf: "total_profit (fetch_books_df float_shelf) = F64 (1 / 2 ^ 55)"
    by (simp add: total_profit_def empty_frame_def float_shelf_rows profit_1 profit_2
        zero_plus_f64 rd02_down sum_profits)
  show ?thesis unfolding tc tp tf diff_totals by simp
qed

section \<open>The view filter\<close>

lemma match_here_literal:
  "list_all (\<lambda>ch. \<not> re_special ch) pat \<Longrightarrow>
   match_here pat s \<longleftrightarrow> prefix (map lower pat) (map lower s)"
proof (induction pat s rule: match_here.induct)
  case (3 p ps c cs)
  then have "p \<noteq> CHR ''.''" by (auto simp: re_special_def)
  with 3 show ?case by simp
qed simp_all

lemma re_search_literal:
  "list_all (\<lambda>ch. \<not> re_special ch) pat \<Longrightarrow>
   re_search pat s \<longleftrightarrow> sublist (map lower pat) (map lower s)"
  by (induction s) (simp_all add: match_here_literal sublist_Cons_right)

lemma re_compile_literal:
  "list_all (\<lambda>ch. \<not> re_special ch) pat \<Longrightarrow> re_compile re_other pat = Inr (re_search pat)"
  by (simp add: re_compile_def list_all_iff)

lemma filter_assigned:
  "filter (\<lambda>r. case profit r of Some x \<Rightarrow> P x | None \<Rightarrow> False)
      (map (\<lambda>r. r\<lparr>profit := Some (price r - cost r)\<rparr>) rs)
   = map (\<lambda>r. r\<lparr>profit := Some (price r - cost r)\<rparr>) (filter (\<lambda>r. P (price r - cost r)) rs)"
  by (induction rs) auto

lemma apply_filters_found:
  assumes "search = [] \<or> re_compile re_other search = Inr found"
  shows "apply_filters re_other search mode df =
     Inr \<lparr>columns = (if mode = Todos \<or> ''profit'' \<in> set (columns df) then columns df
                     else columns df @ [''profit'']),
          rows = map (\<lambda>r. if mode = Todos then r else r\<lparr>profit := Some (price r - cost r)\<rparr>)
                   (filter (\<lambda>r. (search = [] \<or> found (title r)) \<and>
                      (case mode of Todos \<Rightarrow> True
                       | Lucro_positivo \<Rightarrow> price r - cost r > 0
                       | Lucro_negativo_zero \<Rightarrow> price r - cost r \<le> 0)) (rows df))\<rparr>"
proof (cases "search = []")
  case True
  then show ?thesis
    by (cases mode) (simp_all add: apply_filters_def assign_profit_def filter_assigned)
next
  case False
  with assms have c: "re_compile re_other search = Inr found" by simp
  have conj: "\<And>P rs. filter P (filter (\<lambda>r. found (title r)) rs)
      = filter (\<lambda>r::'a dfrow. found (title r) \<and> P r) rs"
    by (simp add: conj_commute)
  show ?thesis using False
    by (cases mode) (simp_all add: apply_filters_def c assign_profit_def filter_assigned conj)
qed

text \<open>
  For a search text without a character that \<open>re\<close> reads as an operator, the filter
  keeps exactly the records the specification describes: the title contains the text,
  letter case aside, and the profit has the sign of the mode.
\<close>

lemma literal_search_is_substring_and_profit:
  assumes "list_all (\<lambda>ch. \<not> re_special ch) search"
  shows "\<exists>df'. apply_filters re_other search mode df = Inr df'
     \<and> map book_id (rows df') = map book_id (filter (keeps search mode) (rows df))
     \<and> map title (rows df') = map title (filter (keeps search mode) (rows df))"
proof -
  have "search = [] \<or> re_compile re_other search = Inr (re_search search)"
    using re_compile_literal[OF assms] by simp
  note eq = apply_filters_found[OF this, of mode df]
  have k: "(\<lambda>r::'a dfrow. (search = [] \<or> re_search search (title r)) \<and>
             (case mode of Todos \<Rightarrow> True
              | Lucro_positivo \<Rightarrow> price r - cost r > 0
              | Lucro_negativo_zero \<Rightarrow> price r - cost r \<le> 0)) = keeps search mode"
    by (simp add: keeps_def fun_eq_iff re_search_literal[OF assms])
  have i: "book_id \<circ> (\<lambda>r::'a dfrow. if mode = Todos then r else r\<lparr>profit := Some (price r - cost r)\<rparr>)
        = book_id"
    by (auto simp: fun_eq_iff)
  have t: "title \<circ> (\<lambda>r::'a dfrow. if mode = Todos then r else r\<lparr>profit := Some (price r - cost r)\<rparr>)
        = title"
    by (auto simp: fun_eq_iff)
  show ?thesis unfolding eq k by (simp add: i t)
qed

text \<open>
  Claim C7 fails on the code where the search text holds such a character, because
  \<open>str.contains\<close> is called with \<open>regex\<close> left at \<open>True\<close>. The search text \<open>.\<close> keeps
  every book of the example, none of whose titles contains a dot; the search text \<open>+\<close>
  makes \<open>re.compile\<close> raise, and the exception leaves \<open>apply_filters\<close>.
\<close>

theorem search_text_is_a_regex:
  "apply_filters re_other ''.'' Todos (fetch_books_df shelf) = Inr (fetch_books_df shelf)
   \<and> \<not> sublist (map lower ''.'') (map lower ''Dune'')
   \<and> apply_filters re_other ''+'' Todos (fetch_books_df shelf) = Inl ReError"
  by (simp add: apply_filters_def re_compile_def re_special_def fetch_books_df_def shelf_def
      dfrow_of_def lower_def sublist_Cons_right char_of_def bit_0)

text \<open>
  Claim C10. When the search text is empty or compiles, \<open>apply_filters\<close> returns a frame.
  The frame it is given has the four columns of the table. With the mode
  \<open>Lucro positivo\<close> or \<open>Lucro negativo/zero\<close> the result has a fifth column \<open>profit\<close>, and
  in every row it is the price minus the cost; with \<open>Todos\<close> the result has the four
  columns and no row has a profit.
\<close>

theorem profit_column_depends_on_mode:
  assumes "search = [] \<or> re_compile re_other search = Inr found"
  shows "\<exists>df'. apply_filters re_other search mode (fetch_books_df d) = Inr df'
     \<and> columns (fetch_books_df d) = [''id'', ''title'', ''cost'', ''price'']
     \<and> columns df' = (if mode = Todos then [''id'', ''title'', ''cost'', ''price'']
                       else [''id'', ''title'', ''cost'', ''price'', ''profit''])
     \<and> list_all (\<lambda>r. profit r = (if mode = Todos then None else Some (price r - cost r)))
          (rows df')"
  using apply_filters_found[OF assms, of mode "fetch_books_df d"]
  by (auto simp: fetch_books_df_def list_all_iff dfrow_of_def)

theorem profit_column_depends_on_mode_witness:
  "(\<exists>df'. apply_filters (\<lambda>_. Inl ReError) ''dune'' Lucro_positivo (fetch_books_df shelf) = Inr df'
      \<and> columns df' = [''id'', ''title'', ''cost'', ''price'', ''profit'']
      \<and> list_all (\<lambda>r. profit r = Some (price r - cost r)) (rows df'))
   \<and> (\<exists>df'. apply_filters (\<lambda>_. Inl ReError) ''dune'' Todos (fetch_books_df shelf) = Inr df'
      \<and> columns df' = [''id'', ''title'', ''cost'', ''price'']
      \<and> list_all (\<lambda>r. profit r = None) (rows df'))"
  using profit_column_depends_on_mode[of "''dune''" "\<lambda>_. Inl ReError" "re_search ''dune''"
          Lucro_positivo shelf]
        profit_column_depends_on_mode[of "''dune''" "\<lambda>_. Inl ReError" "re_search ''dune''"
          Todos shelf]
  by (auto simp: re_compile_def re_special_def)

section \<open>The pie chart\<close>

lemma sorts_descending_values:
  assumes "sorts_descending xs ys"
  shows "map snd ys = rev (sort (map snd xs))"
proof -
  have m: "mset (rev (map snd ys)) = mset (map snd xs)"
    using assms by (simp add: sorts_descending_def)
  have "sorted_wrt (\<lambda>a b. b \<le> a) (map snd ys)"
    using assms by (simp add: sorts_descending_def sorted_wrt_map)
  then have s: "sorted (rev (map snd ys))"
    by (simp add: sorted_wrt_rev)
  from properties_for_sort[OF m s] have "rev (rev (map snd ys)) = rev (sort (map snd xs))"
    by (simp only:)
  then show ?thesis by (simp only: rev_rev_ident)
qed

lemma sorts_descending_length: "sorts_descending xs ys \<Longrightarrow> length ys = length xs"
  unfolding sorts_descending_def by (metis size_mset)

lemma reversing_sort_sorts: "sorts_descending xs (reversing_sort xs)"
proof -
  have "sorted (map snd (sort_key snd xs))" by (rule sorted_sort_key)
  then have "sorted_wrt (\<lambda>a b. snd a \<le> snd b) (sort_key snd xs)"
    by (simp only: sorted_map)
  then have "sorted_wrt (\<lambda>a b. snd b \<le> snd a) (rev (sort_key snd xs))"
    by (simp only: sorted_wrt_rev)
  then show ?thesis by (simp add: sorts_descending_def reversing_sort_def)
qed

lemma ten_books_ok: "store_ok ten_books"
  by (simp add: ten_books_def store_ok_def max_rowid_def)

lemma ten_rows:
  "rows (fetch_books_df ten_books) =
     [\<lparr>book_id = 1, title = ''B1'', cost = 10, price = 25, profit = None\<rparr>,
      \<lparr>book_id = 2, title = ''B2'', cost = 8, price = 8, profit = None\<rparr>,
      \<lparr>book_id = 3, title = ''B3'', cost = 12, price = 9, profit = None\<rparr>,
      \<lparr>book_id = 4, title = ''B4'', cost = 5, price = 12, profit = None\<rparr>,
      \<lparr>book_id = 5, title = ''B5'', cost = 20, price = 10, profit = None\<rparr>,
      \<lparr>book_id = 6, title = ''B6'', cost = 3, price = 4, profit = None\<rparr>,
      \<lparr>book_id = 7, title = ''B7'', cost = 6, price = 18, profit = None\<rparr>,
      \<lparr>book_id = 8, title = ''B8'', cost = 9, price = 7, profit = None\<rparr>,
      \<lparr>book_id = 9, title = ''B9'', cost = 1, price = 7, profit = None\<rparr>,
      \<lparr>book_id = 10, title = ''B10'', cost = 30, price = 50, profit = None\<rparr>]"
  unfolding fetch_sorted[OF ten_books_ok] by (simp add: ten_books_def dfrow_of_def)

text \<open>
  Claim C5. For a frame with more than 8 rows and a \<open>sort_values\<close> that arranges the
  entries in descending order, the chart gets 9 labels: the titles of the first 8 entries
  and, last, the one entry \<open>Outros\<close> (the script's word for "Other"). The values are
  the 8 largest magnitudes \<open>\<bar>price - cost\<bar>\<close> in descending order, then the sum of all
  the remaining, which are the smallest: with 10 rows, the sum of the 2 lowest. Each of
  the first 8 entries is the title and the magnitude of a record.
\<close>

theorem pie_top8_and_outros:
  fixes df :: "'a::linordered_idom frame"
  assumes "8 < length (rows df)"
    and "sorts_descending (abs_profit_by_title df) (sort_values (abs_profit_by_title df))"
  shows "pie_chart sort_values df =
           Some (map fst (take 8 (sort_values (abs_profit_by_title df))) @ [''Outros''],
                 take 8 (rev (sort (map (\<lambda>r. \<bar>price r - cost r\<bar>) (rows df))))
                 @ [sum_list (take (length (rows df) - 8)
                      (sort (map (\<lambda>r. \<bar>price r - cost r\<bar>) (rows df))))])
       \<and> length (map fst (take 8 (sort_values (abs_profit_by_title df))) @ [''Outros'']) = 9
       \<and> mset (take 8 (sort_values (abs_profit_by_title df))) \<subseteq># mset (abs_profit_by_title df)"
proof -
  let ?S = "abs_profit_by_title df"
  let ?prof = "sort_values ?S"
  let ?mags = "map (\<lambda>r. \<bar>price r - cost r\<bar>) (rows df)"
  have mags: "map snd ?S = ?mags" by (simp add: abs_profit_by_title_def o_def)
  have len: "length ?prof = length (rows df)"
    using sorts_descending_length[OF assms(2)] by (simp add: abs_profit_by_title_def)
  have vals: "map snd ?prof = rev (sort ?mags)"
    using sorts_descending_values[OF assms(2)] by (simp only: mags)
  have top: "map snd (take 8 ?prof) = take 8 (rev (sort ?mags))"
    unfolding take_map[symmetric] vals ..
  have "map snd (drop 8 ?prof) = drop 8 (rev (sort ?mags))"
    unfolding drop_map[symmetric] vals ..
  also have "\<dots> = rev (take (length (rows df) - 8) (sort ?mags))"
    by (simp add: drop_rev)
  finally have rest: "foldl (+) 0 (map snd (drop 8 ?prof))
      = sum_list (take (length (rows df) - 8) (sort ?mags))"
    by (simp only: foldl_plus_sum_list sum_list_rev add_0_left)
  have "mset (take 8 ?prof) + mset (drop 8 ?prof) = mset ?prof"
    by (simp only: append_take_drop_id flip: mset_append)
  then have "mset (take 8 ?prof) \<subseteq># mset ?prof"
    by (metis mset_subset_eq_add_left)
  then have sub: "mset (take 8 ?prof) \<subseteq># mset ?S"
    using assms(2) by (simp only: sorts_descending_def)
  have ne: "rows df \<noteq> []" using assms(1) by auto
  have l8: "8 < length ?prof" using assms(1) len by simp
  have l9: "length (map fst (take 8 ?prof) @ [''Outros'']) = 9"
    using l8 by simp
  have "pie_chart sort_values df =
      Some (map fst (take 8 ?prof) @ [''Outros''],
            map snd (take 8 ?prof) @ [foldl (+) 0 (map snd (drop 8 ?prof))])"
    using l8 ne by (simp add: pie_chart_def empty_frame_def Let_def)
  then show ?thesis unfolding top rest using l9 sub by blast
qed

theorem pie_top8_and_outros_witness:
  "pie_chart reversing_sort (fetch_books_df ten_books)
     = Some ([''B10'', ''B1'', ''B7'', ''B5'', ''B4'', ''B9'', ''B3'', ''B8'', ''Outros''],
             [20, 15, 12, 10, 7, 6, 3, 2, 1 + 0])"
  using pie_top8_and_outros[of "fetch_books_df ten_books" reversing_sort, OF _ reversing_sort_sorts]
  by (simp add: ten_rows reversing_sort_def abs_profit_by_title_def)






section \<open>The CSV export\<close>

lemma is_digit_digit: "n < 10 \<Longrightarrow> is_digit (digit n)"
  by (simp add: is_digit_def digit_def)

lemma show_nat_digits: "list_all is_digit (show_nat n) \<and> show_nat n \<noteq> []"
proof (induction n rule: show_nat.induct)
  case (1 n)
  show ?case
  proof (cases "n < 10")
    case True
    then show ?thesis by (subst (1 2) show_nat.simps) (simp add: is_digit_digit)
  next
    case False
    with 1 show ?thesis by (subst (1 2) show_nat.simps) (simp add: is_digit_digit)
  qed
qed

lemma is_digit_not_minus: "is_digit ch \<Longrightarrow> ch \<noteq> CHR ''-''"
  by (auto simp: is_digit_def)

lemma two_decimals_shape:
  assumes "list_all is_digit ds" "ds \<noteq> []" "is_digit a" "is_digit b"
  shows "two_decimals (ds @ ''.'' @ [a, b])" "two_decimals (''-'' @ ds @ ''.'' @ [a, b])"
proof -
  have hd: "hd ds \<noteq> CHR ''-''"
    using assms(1,2) by (cases ds) (auto dest: is_digit_not_minus)
  have n: "length (ds @ ''.'' @ [a, b]) - 3 = length ds" by simp
  have body: "list_all is_digit (take (length ds) (ds @ ''.'' @ [a, b]))
      \<and> (ds @ ''.'' @ [a, b]) ! length ds = CHR ''.''
      \<and> is_digit ((ds @ ''.'' @ [a, b]) ! (length (ds @ ''.'' @ [a, b]) - 2))
      \<and> is_digit ((ds @ ''.'' @ [a, b]) ! (length (ds @ ''.'' @ [a, b]) - 1))
      \<and> 4 \<le> length (ds @ ''.'' @ [a, b])"
    using assms by (cases ds) (simp_all add: nth_append)
  show "two_decimals (ds @ ''.'' @ [a, b])"
    using hd assms(2) body unfolding two_decimals_def Let_def n by (cases ds) simp_all
  show "two_decimals (''-'' @ ds @ ''.'' @ [a, b])"
    using body unfolding two_decimals_def Let_def by (simp add: n)
qed

lemma two_decimals_format_2f: "two_decimals (format_2f x)"
proof -
  define n where "n = nat (round_half_even (\<bar>x\<bar> * 100))"
  have a: "is_digit (digit (n mod 100 div 10))" by (rule is_digit_digit) (simp add: div_less_iff_less_mult)
  have b: "is_digit (digit (n mod 10))" by (rule is_digit_digit) simp
  have f: "format_2f x = (if x < 0 then ''-'' else []) @ show_nat (n div 100) @ ''.''
        @ [digit (n mod 100 div 10), digit (n mod 10)]"
    unfolding format_2f_def Let_def n_def ..
  from two_decimals_shape[OF conjunct1[OF show_nat_digits] conjunct2[OF show_nat_digits] a b, of "n div 100"]
  show ?thesis unfolding f by (cases "x < 0") simp_all
qed

lemma utf8_ascii: "list_all (\<lambda>ch. (of_char ch :: nat) < 128) s \<Longrightarrow> concat (map utf8 s) = s"
  by (induction s) (simp_all add: utf8_def)

lemma header_fields:
  "csv_field (os_linesep os) ''id'' = ''id''"
  "csv_field (os_linesep os) ''title'' = ''title''"
  "csv_field (os_linesep os) ''cost'' = ''cost''"
  "csv_field (os_linesep os) ''price'' = ''price''"
  by (cases os; simp add: csv_field_def)+

lemma to_csv_fetch:
  "to_csv (os_linesep os) (fetch_books_df d) =
     ''id,title,cost,price'' @ os_linesep os
     @ concat (map (\<lambda>r. show_int (book_id r) @ '','' @ csv_field (os_linesep os) (title r) @ '',''
                        @ format_2f (cost r) @ '','' @ format_2f (price r) @ os_linesep os)
                (rows (fetch_books_df d)))"
  by (simp add: to_csv_def fetch_books_df_def header_fields cell_def o_def)

text \<open>
  Claim C2, as the code has it. The bytes are a function of the frame and of the
  platform's line terminator. They are the byte order mark followed by the UTF-8 of a
  comma-delimited text. For a frame read from the table the header row is
  \<open>id,title,cost,price\<close>, the names of the four columns of the table, and each record
  is one line: the id printed as an integer, the title, and the cost and the price, which
  are printed with exactly two decimals. The export button offers these bytes unless
  the table is empty.
\<close>

theorem csv_export_format:
  "to_csv_bytes os (fetch_books_df d) = bom @ concat (map utf8 (to_csv (os_linesep os) (fetch_books_df d)))
   \<and> to_csv (os_linesep os) (fetch_books_df d) =
       ''id,title,cost,price'' @ os_linesep os
       @ concat (map (\<lambda>r. show_int (book_id r) @ '','' @ csv_field (os_linesep os) (title r) @ '',''
                          @ format_2f (cost r) @ '','' @ format_2f (price r) @ os_linesep os)
                  (rows (fetch_books_df d)))
   \<and> prefix (bom @ ''id,title,cost,price'' @ os_linesep os) (to_csv_bytes os (fetch_books_df d))
   \<and> two_decimals (format_2f (x :: 'a::floor_ceiling))
   \<and> export_csv os d = (if books d = [] then None else Some (to_csv_bytes os (fetch_books_df d)))"
proof -
  have h1: "concat (map utf8 ''id,title,cost,price'') = ''id,title,cost,price''"
    by (rule utf8_ascii) simp
  have h2: "concat (map utf8 (os_linesep os)) = os_linesep os"
    by (rule utf8_ascii) (cases os; simp)
  have "\<exists>rest. to_csv_bytes os (fetch_books_df d)
      = (bom @ ''id,title,cost,price'' @ os_linesep os) @ rest"
    by (simp only: to_csv_bytes_def to_csv_fetch map_append concat_append append_assoc h1 h2)
       blast
  then have "prefix (bom @ ''id,title,cost,price'' @ os_linesep os) (to_csv_bytes os (fetch_books_df d))"
    by (simp only: prefix_def)
  moreover have "export_csv os d
      = (if books d = [] then None else Some (to_csv_bytes os (fetch_books_df d)))"
  proof -
    have "length (sort_key book_id (books d)) = length (books d)" by (rule length_sort)
    then have "sort_key book_id (books d) = [] \<longleftrightarrow> books d = []"
      by (simp only: length_0_conv[symmetric])
    then show ?thesis
      by (simp add: export_csv_def empty_frame_def fetch_books_df_def Let_def)
  qed
  ultimately show ?thesis
    using to_csv_fetch[of os d] two_decimals_format_2f[of x] by (simp add: to_csv_bytes_def)
qed

lemma format_2f_examples:
  "format_2f (10 :: rat) = ''10.00''"
  "format_2f (25 :: rat) = ''25.00''"
  "format_2f (8 :: rat) = ''8.00''"
  by (simp_all add: format_2f_def round_half_even_def Let_def show_nat.simps digit_def
      char_of_def bit_0)

lemma show_int_examples:
  "show_int 1 = ''1''"
  "show_int 2 = ''2''"
  by (simp_all add: show_int_def show_nat.simps digit_def char_of_def bit_0)

lemma after_delete_rows:
  "rows (fetch_books_df after_delete)
     = [\<lparr>book_id = 1, title = ''Dune'', cost = 10, price = 25, profit = None\<rparr>,
        \<lparr>book_id = 2, title = ''Foundation'', cost = 8, price = 8, profit = None\<rparr>]"
  by (simp add: after_delete_def fetch_books_df_def dfrow_of_def)

lemma after_delete_csv:
  "to_csv_bytes Posix (fetch_books_df after_delete)
     = bom @ ''id,title,cost,price'' @ [CHR 0x0A]
       @ ''1,Dune,10.00,25.00'' @ [CHR 0x0A] @ ''2,Foundation,8.00,8.00'' @ [CHR 0x0A]"
proof -
  have t: "to_csv (os_linesep Posix) (fetch_books_df after_delete)
      = ''id,title,cost,price'' @ [CHR 0x0A]
        @ ''1,Dune,10.00,25.00'' @ [CHR 0x0A] @ ''2,Foundation,8.00,8.00'' @ [CHR 0x0A]"
    unfolding to_csv_fetch after_delete_rows
    by (simp add: format_2f_examples show_int_examples csv_field_def)
  show ?thesis unfolding to_csv_bytes_def t
    by (subst utf8_ascii) simp_all
qed

theorem csv_export_format_witness:
  "to_csv_bytes Posix (fetch_books_df after_delete)
     = bom @ ''id,title,cost,price'' @ [CHR 0x0A]
       @ ''1,Dune,10.00,25.00'' @ [CHR 0x0A] @ ''2,Foundation,8.00,8.00'' @ [CHR 0x0A]
   \<and> two_decimals (format_2f (25 :: rat))"
  using csv_export_format[of Posix after_delete "25 :: rat"]
  by (simp only: after_delete_csv simp_thms)

text \<open>
  The claim as stated fails: the export of two books starts with the header
  \<open>id,title,cost,price\<close>, not with the six names of the specification, and the id, a
  numeric value, is printed without decimals.
\<close>

theorem csv_header_counterexample:
  "to_csv_bytes Posix (fetch_books_df after_delete)
     = bom @ ''id,title,cost,price'' @ [CHR 0x0A]
       @ ''1,Dune,10.00,25.00'' @ [CHR 0x0A] @ ''2,Foundation,8.00,8.00'' @ [CHR 0x0A]
   \<and> \<not> prefix (bom @ spec_header) (to_csv_bytes Posix (fetch_books_df after_delete))
   \<and> \<not> two_decimals (show_int 1)"
  unfolding after_delete_csv
  by (simp add: spec_header_def show_int_examples two_decimals_def is_digit_def)

end
